theory Spec2Isabelle
  imports Main "HOL-Library.Word"
begin

unbundle bit_operations_syntax

section \<open>Python strings\<close>

text \<open>
  A Python \<open>str\<close> is modelled as an Isabelle \<open>string\<close>: a list of characters whose
  code points lie below 256. \<open>length\<close> counts code points, as Python's \<open>len\<close> does, and
  \<open>utf8_encode\<close> gives the bytes of \<open>s.encode("utf-8")\<close> for such a string (one byte for
  a code point below 128, two bytes above).
\<close>

definition nl :: string where
  "nl = [CHR 0x0A]"

definition utf8_encode :: "string \<Rightarrow> int list" where
  "utf8_encode s = concat (map (\<lambda>c. let n = of_char c :: int in
      if n < 128 then [n] else [192 + n div 64, 128 + n mod 64]) s)"

text \<open>\<open>c.isspace()\<close> on the code points below 256.\<close>

definition isspace :: "char \<Rightarrow> bool" where
  "isspace c = (let n = of_char c :: nat in
     (9 \<le> n \<and> n \<le> 13) \<or> (28 \<le> n \<and> n \<le> 32) \<or> n = 133 \<or> n = 160)"

text \<open>\<open>s.strip()\<close> and \<open>s.strip(ch)\<close> for a single character \<open>ch\<close>.\<close>

definition strip :: "string \<Rightarrow> string" where
  "strip s = rev (dropWhile isspace (rev (dropWhile isspace s)))"

definition strip_char :: "char \<Rightarrow> string \<Rightarrow> string" where
  "strip_char ch s = rev (dropWhile (\<lambda>c. c = ch) (rev (dropWhile (\<lambda>c. c = ch) s)))"

definition startswith :: "string \<Rightarrow> string \<Rightarrow> bool" where
  "startswith s p = (take (length p) s = p)"

text \<open>\<open>sub in s\<close>.\<close>

fun contains :: "string \<Rightarrow> string \<Rightarrow> bool" where
  "contains sub [] = (sub = [])"
| "contains sub (c # cs) = (startswith (c # cs) sub \<or> contains sub cs)"

text \<open>
  \<open>s.split(sep)[-1]\<close> for a non-empty separator: the text after the last match of the
  left-to-right, non-overlapping scan (\<open>cur\<close> is the piece being read).
\<close>

fun split_last :: "string \<Rightarrow> string \<Rightarrow> string \<Rightarrow> string" where
  "split_last sep cur [] = cur"
| "split_last sep cur (c # cs) =
     (if sep \<noteq> [] \<and> startswith (c # cs) sep
      then split_last sep [] (drop (length sep - 1) cs)
      else split_last sep (cur @ [c]) cs)"

text \<open>\<open>s.replace("_", " ")\<close>.\<close>

definition replace_underscores :: "string \<Rightarrow> string" where
  "replace_underscores s = map (\<lambda>c. if c = CHR ''_'' then CHR '' '' else c) s"

text \<open>
  \<open>re.sub(r"[^a-zA-Z0-9\-_.]+", "-", base)\<close>: every maximal run of characters outside
  the class becomes one hyphen. The flag says that the previous character was already
  part of such a run.
\<close>

definition slug_char :: "char \<Rightarrow> bool" where
  "slug_char c = (let n = of_char c :: nat in
     (97 \<le> n \<and> n \<le> 122) \<or> (65 \<le> n \<and> n \<le> 90) \<or> (48 \<le> n \<and> n \<le> 57)
     \<or> c = CHR ''-'' \<or> c = CHR ''_'' \<or> c = CHR ''.'')"

fun re_sub_run :: "bool \<Rightarrow> string \<Rightarrow> string" where
  "re_sub_run in_run [] = []"
| "re_sub_run in_run (c # cs) =
     (if slug_char c then c # re_sub_run False cs
      else if in_run then re_sub_run True cs
      else CHR ''-'' # re_sub_run True cs)"

definition re_sub :: "string \<Rightarrow> string" where
  "re_sub s = re_sub_run False s"

section \<open>hashlib.sha1\<close>

text \<open>
  \<open>hashlib.sha1(bytes).hexdigest()\<close> is SHA-1 (FIPS 180-4) printed as 40 lower-case
  hexadecimal digits. The 32-bit words are integers with the reduction modulo \<open>2^32\<close>
  written out.
\<close>

definition u32 :: "int \<Rightarrow> int" where
  "u32 x = x mod 4294967296"

definition rotl :: "nat \<Rightarrow> int \<Rightarrow> int" where
  "rotl n x = u32 (push_bit n x) OR drop_bit (32 - n) x"

fun be_bytes :: "nat \<Rightarrow> int \<Rightarrow> int list" where
  "be_bytes 0 n = []"
| "be_bytes (Suc k) n = be_bytes k (n div 256) @ [n mod 256]"

definition sha1_pad :: "int list \<Rightarrow> int list" where
  "sha1_pad bs = (let l = length bs in
     bs @ [128] @ replicate ((119 - l mod 64) mod 64) 0 @ be_bytes 8 (8 * int l))"

fun be_words :: "int list \<Rightarrow> int list" where
  "be_words (a # b # c # d # bs) = (((a * 256 + b) * 256 + c) * 256 + d) # be_words bs"
| "be_words _ = []"

text \<open>The message schedule, newest word first.\<close>

fun schedule :: "nat \<Rightarrow> int list \<Rightarrow> int list" where
  "schedule 0 ws = ws"
| "schedule (Suc n) ws =
     schedule n (rotl 1 (ws ! 2 XOR ws ! 7 XOR ws ! 13 XOR ws ! 15) # ws)"

definition sha1_f :: "nat \<Rightarrow> int \<Rightarrow> int \<Rightarrow> int \<Rightarrow> int" where
  "sha1_f t b c d =
     (if t < 20 then (b AND c) OR ((b XOR 0xFFFFFFFF) AND d)
      else if t < 40 then b XOR c XOR d
      else if t < 60 then (b AND c) OR (b AND d) OR (c AND d)
      else b XOR c XOR d)"

definition sha1_k :: "nat \<Rightarrow> int" where
  "sha1_k t =
     (if t < 20 then 0x5A827999 else if t < 40 then 0x6ED9EBA1
      else if t < 60 then 0x8F1BBCDC else 0xCA62C1D6)"

type_synonym sha1_state = "int \<times> int \<times> int \<times> int \<times> int"

fun rounds :: "nat \<Rightarrow> int list \<Rightarrow> sha1_state \<Rightarrow> sha1_state" where
  "rounds t [] st = st"
| "rounds t (w # ws) (a, b, c, d, e) =
     rounds (Suc t) ws
       (u32 (rotl 5 a + sha1_f t b c d + e + sha1_k t + w), a, rotl 30 b, c, d)"

definition sha1_block :: "sha1_state \<Rightarrow> int list \<Rightarrow> sha1_state" where
  "sha1_block h blk =
     (case (h, rounds 0 (rev (schedule 64 (rev blk))) h) of
        ((h0, h1, h2, h3, h4), (a, b, c, d, e)) \<Rightarrow>
          (u32 (h0 + a), u32 (h1 + b), u32 (h2 + c), u32 (h3 + d), u32 (h4 + e)))"

fun sha1_blocks :: "nat \<Rightarrow> sha1_state \<Rightarrow> int list \<Rightarrow> sha1_state" where
  "sha1_blocks 0 h ws = h"
| "sha1_blocks (Suc n) h ws = sha1_blocks n (sha1_block h (take 16 ws)) (drop 16 ws)"

definition hex_digit :: "int \<Rightarrow> char" where
  "hex_digit n = ''0123456789abcdef'' ! nat (n mod 16)"

definition hex_u32 :: "int \<Rightarrow> string" where
  "hex_u32 x = map (\<lambda>k. hex_digit (drop_bit k x)) [28, 24, 20, 16, 12, 8, 4, 0]"

definition sha1_hexdigest :: "int list \<Rightarrow> string" where
  "sha1_hexdigest bs = (let ws = be_words (sha1_pad bs) in
     (case sha1_blocks (length ws div 16)
        (0x67452301, 0xEFCDAB89, 0x98BADCFE, 0x10325476, 0xC3D2E1F0) ws of
       (h0, h1, h2, h3, h4) \<Rightarrow> concat (map hex_u32 [h0, h1, h2, h3, h4])))"

section \<open>The environment of the scraper\<close>

text \<open>
  A call that can raise returns an \<open>outcome\<close>: \<open>Raised\<close> when an exception left it,
  \<open>Returned v\<close> otherwise.
\<close>

datatype 'a outcome = Raised | Returned 'a

text \<open>The fields of \<open>urlparse(url)\<close> that the scraper reads.\<close>

record parsed =
  scheme :: string
  netloc :: string
  path :: string

text \<open>
  What the scraper reads of a \<open>requests\<close> response: \<open>r.status_code\<close>,
  \<open>r.headers.get("Content-Type", "")\<close>, \<open>r.text\<close> and \<open>r.json().get("title")\<close>
  (\<open>Raised\<close> when the body is not a JSON object, \<open>Returned None\<close> when it has no title).
\<close>

record response =
  status_code :: int
  content_type :: string
  resp_text :: string
  json_title :: "string option outcome"

text \<open>\<open>r.ok\<close>: the status is no client or server error.\<close>

definition resp_ok :: "response \<Rightarrow> bool" where
  "resp_ok r = (\<not> (400 \<le> status_code r \<and> status_code r < 600))"

text \<open>
  Everything outside the source file is a parameter. The library functions are pure:
  \<open>urlparse\<close>, \<open>urljoin\<close>, \<open>unquote\<close>, and \<open>anchor_hrefs\<close>, the \<open>href\<close> values of
  \<open>BeautifulSoup(html, "lxml").find_all("a", href=True)\<close> in document order. The others
  act on the world (the network, the clock, the file system, the random generator),
  whose state \<open>'w\<close> they take and return, so that two calls need not agree:
  \<open>robots_urlopen w robots_url\<close> is what \<open>urllib.request.urlopen\<close> does for a robots
  URL (see below); \<open>session_get w url timeout\<close> is \<open>session.get\<close>;
  \<open>trafilatura_extract\<close> is \<open>trafilatura.extract\<close> and \<open>trafilatura_title\<close> the title
  that \<open>bare_extraction\<close> gives (\<open>None\<close> also when it raises); \<open>strftime\<close> is the
  timestamp; \<open>write_file w name content\<close> writes a file of the output directory and says
  whether that succeeded; \<open>shuffle\<close> is \<open>random.shuffle\<close> (any rearrangement the world
  returns is admitted); \<open>sleep\<close> is the politeness delay, which raises on a negative
  length. \<open>robots_rules body ua url\<close> is pure: the answer of the rules of a robots.txt
  with this text for this user agent and URL.
\<close>

text \<open>
  The fetch of a robots URL ends in one of three ways: \<open>urlopen\<close> raises an \<open>HTTPError\<close>
  with a status code, which \<open>RobotFileParser.read\<close> catches; the body is read and
  decoded; or another exception leaves \<open>read\<close> (no connection, timeout, a body that is
  not UTF-8), which is \<open>Raised\<close>.
\<close>

datatype fetched = HTTPError int | Body string

record 'w env =
  urlparse :: "string \<Rightarrow> parsed outcome"
  urljoin :: "string \<Rightarrow> string \<Rightarrow> string outcome"
  unquote :: "string \<Rightarrow> string"
  anchor_hrefs :: "string \<Rightarrow> string list outcome"
  robots_urlopen :: "'w \<Rightarrow> string \<Rightarrow> fetched outcome \<times> 'w"
  robots_rules :: "string \<Rightarrow> string \<Rightarrow> string \<Rightarrow> bool outcome"
  session_get :: "'w \<Rightarrow> string \<Rightarrow> int \<Rightarrow> response outcome \<times> 'w"
  trafilatura_extract :: "'w \<Rightarrow> string \<Rightarrow> string option outcome \<times> 'w"
  trafilatura_title :: "'w \<Rightarrow> string \<Rightarrow> string option \<times> 'w"
  strftime :: "'w \<Rightarrow> string \<times> 'w"
  write_file :: "'w \<Rightarrow> string \<Rightarrow> string \<Rightarrow> bool \<times> 'w"
  shuffle :: "'w \<Rightarrow> string list \<Rightarrow> string list \<times> 'w"
  sleep :: "'w \<Rightarrow> bool \<times> 'w"

text \<open>The command line options that the run reads.\<close>

record args =
  max_total_bytes :: int
  timeout :: int
  crawl :: bool
  max_follow :: int
  same_domain :: bool
  user_agent :: string

section \<open>urllib.robotparser\<close>

text \<open>
  \<open>RobotFileParser\<close> of the standard library, as far as \<open>ok_by_robots\<close> uses it. A new
  parser has both flags unset and has not been checked. \<open>read\<close> sets \<open>disallow_all\<close> on
  the status 401 or 403 and \<open>allow_all\<close> on another status from 400 to 499, sets nothing
  on any other \<open>HTTPError\<close>, and parses the body when there is one, which marks the
  parser as checked. \<open>can_fetch\<close> answers \<open>False\<close> under \<open>disallow_all\<close>, \<open>True\<close> under
  \<open>allow_all\<close>, \<open>False\<close> when the parser was never checked, and asks the rules otherwise.
\<close>

record robot_file_parser =
  rp_url :: string
  disallow_all :: bool
  allow_all :: bool
  last_checked :: bool
  entries :: string

definition RobotFileParser :: robot_file_parser where
  "RobotFileParser =
     \<lparr>rp_url = [], disallow_all = False, allow_all = False, last_checked = False,
      entries = []\<rparr>"

definition set_url :: "robot_file_parser \<Rightarrow> string \<Rightarrow> robot_file_parser" where
  "set_url rp url = rp\<lparr>rp_url := url\<rparr>"

definition read :: "'w env \<Rightarrow> 'w \<Rightarrow> robot_file_parser \<Rightarrow> robot_file_parser outcome \<times> 'w" where
  "read E w rp =
     (case robots_urlopen E w (rp_url rp) of
        (Raised, w') \<Rightarrow> (Raised, w')
      | (Returned (HTTPError code), w') \<Rightarrow>
          (Returned (if code = 401 \<or> code = 403 then rp\<lparr>disallow_all := True\<rparr>
                     else if code \<ge> 400 \<and> code < 500 then rp\<lparr>allow_all := True\<rparr>
                     else rp), w')
      | (Returned (Body raw), w') \<Rightarrow>
          (Returned (rp\<lparr>last_checked := True, entries := raw\<rparr>), w'))"

definition can_fetch :: "'w env \<Rightarrow> robot_file_parser \<Rightarrow> string \<Rightarrow> string \<Rightarrow> bool outcome" where
  "can_fetch E rp useragent url =
     (if disallow_all rp then Returned False
      else if allow_all rp then Returned True
      else if \<not> last_checked rp then Returned False
      else robots_rules E (entries rp) useragent url)"

section \<open>The functions of scrape.py\<close>

text \<open>The two parts of the name that \<open>slugify\<close> returns, and \<open>slugify\<close>.\<close>

definition slug_base :: "parsed \<Rightarrow> string" where
  "slug_base p =
     (let base = re_sub (strip_char CHR ''/'' (netloc p @ path p))
      in if base = [] then ''page'' else base)"

definition slug_hash :: "string \<Rightarrow> string" where
  "slug_hash url = take 8 (sha1_hexdigest (utf8_encode url))"

definition slugify :: "'w env \<Rightarrow> string \<Rightarrow> string outcome" where
  "slugify E url =
     (case urlparse E url of
        Raised \<Rightarrow> Raised
      | Returned p \<Rightarrow> Returned (slug_base p @ ''-'' @ slug_hash url))"

definition ok_by_robots :: "'w env \<Rightarrow> 'w \<Rightarrow> string \<Rightarrow> string \<Rightarrow> bool outcome \<times> 'w" where
  "ok_by_robots E w url ua =
     (case urlparse E url of
        Raised \<Rightarrow> (Raised, w)
      | Returned p \<Rightarrow>
          let robots_url = scheme p @ ''://'' @ netloc p @ ''/robots.txt'';
              rp = set_url RobotFileParser robots_url
          in (case read E w rp of
                (Raised, w') \<Rightarrow> (Returned True, w')
              | (Returned rp', w') \<Rightarrow>
                  (case can_fetch E rp' ua url of
                     Raised \<Rightarrow> (Returned True, w')
                   | Returned b \<Rightarrow> (Returned b, w'))))"

definition fetch_wikipedia_plain ::
  "'w env \<Rightarrow> 'w \<Rightarrow> string \<Rightarrow> int \<Rightarrow> (string option \<times> string option) outcome \<times> 'w" where
  "fetch_wikipedia_plain E w url tmo =
     (case urlparse E url of
        Raised \<Rightarrow> (Raised, w)
      | Returned p \<Rightarrow>
          if \<not> contains ''wikipedia.org'' (netloc p) \<or> \<not> contains ''/wiki/'' (path p)
          then (Returned (None, None), w)
          else
            let title = unquote E (split_last ''/wiki/'' [] (path p));
                api_url = ''https://'' @ netloc p @ ''/api/rest_v1/page/plain/'' @ title
            in (case session_get E w api_url tmo of
                  (Raised, w1) \<Rightarrow> (Raised, w1)
                | (Returned r, w1) \<Rightarrow>
                    if status_code r \<noteq> 200 \<or> strip (resp_text r) = []
                    then (Returned (None, None), w1)
                    else
                      let summary_url =
                            ''https://'' @ netloc p @ ''/api/rest_v1/page/summary/'' @ title;
                          fallback = Some (replace_underscores title)
                      in (case session_get E w1 summary_url tmo of
                            (Raised, w2) \<Rightarrow> (Returned (fallback, Some (resp_text r)), w2)
                          | (Returned s, w2) \<Rightarrow>
                              if resp_ok s
                              then (case json_title s of
                                      Raised \<Rightarrow> (Returned (fallback, Some (resp_text r)), w2)
                                    | Returned t \<Rightarrow> (Returned (t, Some (resp_text r)), w2))
                              else (Returned (fallback, Some (resp_text r)), w2))))"

definition extract_with_trafilatura ::
  "'w env \<Rightarrow> 'w \<Rightarrow> string \<Rightarrow> string \<Rightarrow> (string option \<times> string option) outcome \<times> 'w" where
  "extract_with_trafilatura E w url html =
     (case trafilatura_extract E w html of
        (Raised, w1) \<Rightarrow> (Raised, w1)
      | (Returned None, w1) \<Rightarrow> (Returned (None, None), w1)
      | (Returned (Some downloaded), w1) \<Rightarrow>
          if downloaded = [] then (Returned (None, None), w1)
          else (case trafilatura_title E w1 html of
                  (title, w2) \<Rightarrow> (Returned (title, Some downloaded), w2)))"

text \<open>
  The loop of \<open>collect_links\<close>. The Python set \<open>links\<close> is the list of its elements in
  the order they were first added; Python promises no order for \<open>list(links)\<close>.
\<close>

definition dropped_href :: "string \<Rightarrow> bool" where
  "dropped_href href =
     (startswith href ''#'' \<or> startswith href ''mailto:'' \<or> startswith href ''javascript:'')"

fun collect_loop ::
  "'w env \<Rightarrow> string \<Rightarrow> string \<Rightarrow> bool \<Rightarrow> string list \<Rightarrow> string list \<Rightarrow> string list outcome" where
  "collect_loop E base_url base_domain same [] links = Returned links"
| "collect_loop E base_url base_domain same (a # as) links =
     (let href = strip a in
      if dropped_href href then collect_loop E base_url base_domain same as links
      else
        (case urljoin E base_url href of
           Raised \<Rightarrow> Raised
         | Returned abs_url \<Rightarrow>
             if same
             then (case urlparse E abs_url of
                     Raised \<Rightarrow> Raised
                   | Returned p \<Rightarrow>
                       if netloc p \<noteq> base_domain
                       then collect_loop E base_url base_domain same as links
                       else collect_loop E base_url base_domain same as
                              (if abs_url \<in> set links then links else links @ [abs_url]))
             else collect_loop E base_url base_domain same as
                    (if abs_url \<in> set links then links else links @ [abs_url])))"

definition collect_links :: "'w env \<Rightarrow> string \<Rightarrow> string \<Rightarrow> bool \<Rightarrow> string list outcome" where
  "collect_links E base_url html same =
     (case anchor_hrefs E html of
        Raised \<Rightarrow> Raised
      | Returned hrefs \<Rightarrow>
          (case urlparse E base_url of
             Raised \<Rightarrow> Raised
           | Returned bp \<Rightarrow> collect_loop E base_url (netloc bp) same hrefs []))"

text \<open>
  A file that was written: the URL it was written for, its name in the output
  directory, its content, and the number of bytes \<open>save_txt\<close> returned for it.
\<close>

record saved_file =
  for_url :: string
  file_name :: string
  file_content :: string
  added :: int

text \<open>\<open>sep.join(xs)\<close>.\<close>

fun join :: "string \<Rightarrow> string list \<Rightarrow> string" where
  "join sep [] = []"
| "join sep [x] = x"
| "join sep (x # y # ys) = x @ sep @ join sep (y # ys)"

definition file_text :: "string \<Rightarrow> string option \<Rightarrow> string \<Rightarrow> string \<Rightarrow> string" where
  "file_text url title stamp txt =
     (let header = [''URL: '' @ url,
                    strip (''TITLE: '' @ (case title of None \<Rightarrow> [] | Some t \<Rightarrow> t)),
                    ''CRAWLED_AT: '' @ stamp];
          header_str = join nl header @ nl @ nl
      in header_str @ strip txt @ nl)"

definition save_txt ::
  "'w env \<Rightarrow> 'w \<Rightarrow> string \<Rightarrow> string option \<Rightarrow> string \<Rightarrow> saved_file outcome \<times> 'w" where
  "save_txt E w url title txt =
     (case slugify E url of
        Raised \<Rightarrow> (Raised, w)
      | Returned slug \<Rightarrow>
          (case strftime E w of
             (stamp, w1) \<Rightarrow>
               let content = file_text url title stamp txt in
               (case write_file E w1 (slug @ ''.txt'') content of
                  (False, w2) \<Rightarrow> (Raised, w2)
                | (True, w2) \<Rightarrow>
                    (Returned \<lparr>for_url = url, file_name = slug @ ''.txt'',
                               file_content = content,
                               added = int (length (utf8_encode content))\<rparr>, w2))))"

section \<open>The run\<close>

text \<open>The lines that \<open>logging\<close> writes, by their signal.\<close>

datatype log_line =
    ROBOTS_BLOCKED string
  | SKIP_NONHTML string string
  | EXTRACTION_FAILED_SHORT string
  | DUPLICATE string
  | SAVED string int int
  | ERROR string
  | CRAWL_ERROR string

text \<open>
  The variables that \<open>process_url\<close> shares with \<open>main\<close>, together with what the run
  has written: the files, oldest first, and the log.
\<close>

record state =
  seen_urls :: "string set"
  seen_hashes :: "string set"
  total_bytes :: int
  files :: "saved_file list"
  log_lines :: "log_line list"

definition logging :: "log_line \<Rightarrow> state \<Rightarrow> state" where
  "logging l s = s\<lparr>log_lines := log_lines s @ [l]\<rparr>"

text \<open>
  The first half of the \<open>try\<close> block of \<open>process_url\<close>: the Wikipedia fast path, then
  the general fetch and extraction. It ends with the title and the text, or with the log
  line of the \<open>return\<close> it took.
\<close>

datatype acquired = Skip log_line | Text "string option" string

definition acquire :: "'w env \<Rightarrow> args \<Rightarrow> 'w \<Rightarrow> string \<Rightarrow> acquired outcome \<times> 'w" where
  "acquire E cfg w url =
     (case fetch_wikipedia_plain E w url (timeout cfg) of
        (Raised, w1) \<Rightarrow> (Raised, w1)
      | (Returned (title, Some (c # cs)), w1) \<Rightarrow> (Returned (Text title (c # cs)), w1)
      | (Returned (title, _), w1) \<Rightarrow>
          (case session_get E w1 url (timeout cfg) of
             (Raised, w2) \<Rightarrow> (Raised, w2)
           | (Returned r, w2) \<Rightarrow>
               if \<not> contains ''text/html'' (content_type r)
               then (Returned (Skip (SKIP_NONHTML url (content_type r))), w2)
               else
                 (case extract_with_trafilatura E w2 url (resp_text r) of
                    (Raised, w3) \<Rightarrow> (Raised, w3)
                  | (Returned (title, None), w3) \<Rightarrow>
                      (Returned (Skip (EXTRACTION_FAILED_SHORT url)), w3)
                  | (Returned (title, Some t), w3) \<Rightarrow>
                      if t = [] \<or> length (strip t) < 300
                      then (Returned (Skip (EXTRACTION_FAILED_SHORT url)), w3)
                      else (Returned (Text title t), w3))))"

definition process_url ::
  "'w env \<Rightarrow> args \<Rightarrow> state \<Rightarrow> 'w \<Rightarrow> string \<Rightarrow> unit outcome \<times> state \<times> 'w" where
  "process_url E cfg s w url =
     (if url \<in> seen_urls s then (Returned (), s, w)
      else
        let s = s\<lparr>seen_urls := insert url (seen_urls s)\<rparr> in
        if total_bytes s \<ge> max_total_bytes cfg then (Returned (), s, w)
        else
          (case ok_by_robots E w url (user_agent cfg) of
             (Raised, w1) \<Rightarrow> (Raised, s, w1)
           | (Returned False, w1) \<Rightarrow> (Returned (), logging (ROBOTS_BLOCKED url) s, w1)
           | (Returned True, w1) \<Rightarrow>
               (case acquire E cfg w1 url of
                  (Raised, w2) \<Rightarrow> (Returned (), logging (ERROR url) s, w2)
                | (Returned (Skip l), w2) \<Rightarrow> (Returned (), logging l s, w2)
                | (Returned (Text title txt), w2) \<Rightarrow>
                    let h = sha1_hexdigest (utf8_encode (strip txt)) in
                    if h \<in> seen_hashes s then (Returned (), logging (DUPLICATE url) s, w2)
                    else
                      let s = s\<lparr>seen_hashes := insert h (seen_hashes s)\<rparr> in
                      (case save_txt E w2 url title txt of
                         (Raised, w3) \<Rightarrow> (Returned (), logging (ERROR url) s, w3)
                       | (Returned f, w3) \<Rightarrow>
                           let s = s\<lparr>files := files s @ [f],
                                     total_bytes := total_bytes s + added f\<rparr>
                           in (Returned (), logging (SAVED url (added f) (total_bytes s)) s, w3)))))"

text \<open>The inner loop of \<open>main\<close>, over the links that are followed.\<close>

fun follow_links ::
  "'w env \<Rightarrow> args \<Rightarrow> state \<Rightarrow> 'w \<Rightarrow> string list \<Rightarrow> unit outcome \<times> state \<times> 'w" where
  "follow_links E cfg s w [] = (Returned (), s, w)"
| "follow_links E cfg s w (link # links) =
     (if total_bytes s \<ge> max_total_bytes cfg then (Returned (), s, w)
      else
        (case process_url E cfg s w link of
           (Raised, s1, w1) \<Rightarrow> (Raised, s1, w1)
         | (Returned u, s1, w1) \<Rightarrow>
             (case sleep E w1 of
                (False, w2) \<Rightarrow> (Raised, s1, w2)
              | (True, w2) \<Rightarrow> follow_links E cfg s1 w2 links)))"

text \<open>\<open>links[:max(0, args.max_follow)]\<close>.\<close>

definition followed :: "args \<Rightarrow> string list \<Rightarrow> string list" where
  "followed cfg links = take (nat (max 0 (max_follow cfg))) links"

text \<open>The \<open>try\<close> block of \<open>main\<close>: the seed is fetched once more for its links.\<close>

definition expand :: "'w env \<Rightarrow> args \<Rightarrow> state \<Rightarrow> 'w \<Rightarrow> string \<Rightarrow> state \<times> 'w" where
  "expand E cfg s w seed =
     (case session_get E w seed (timeout cfg) of
        (Raised, w1) \<Rightarrow> (logging (CRAWL_ERROR seed) s, w1)
      | (Returned r, w1) \<Rightarrow>
          if resp_ok r \<and> contains ''text/html'' (content_type r)
          then
            (case collect_links E seed (resp_text r) (same_domain cfg) of
               Raised \<Rightarrow> (logging (CRAWL_ERROR seed) s, w1)
             | Returned links \<Rightarrow>
                 (case shuffle E w1 links of
                    (links', w2) \<Rightarrow>
                      (case follow_links E cfg s w2 (followed cfg links') of
                         (Raised, s1, w3) \<Rightarrow> (logging (CRAWL_ERROR seed) s1, w3)
                       | (Returned u, s1, w3) \<Rightarrow> (s1, w3))))
          else (s, w1))"

text \<open>The outer loop of \<open>main\<close>, over the seeds.\<close>

fun run_seeds ::
  "'w env \<Rightarrow> args \<Rightarrow> state \<Rightarrow> 'w \<Rightarrow> string list \<Rightarrow> unit outcome \<times> state \<times> 'w" where
  "run_seeds E cfg s w [] = (Returned (), s, w)"
| "run_seeds E cfg s w (seed # seeds) =
     (if total_bytes s \<ge> max_total_bytes cfg then (Returned (), s, w)
      else
        (case process_url E cfg s w seed of
           (Raised, s1, w1) \<Rightarrow> (Raised, s1, w1)
         | (Returned u, s1, w1) \<Rightarrow>
             (case sleep E w1 of
                (False, w2) \<Rightarrow> (Raised, s1, w2)
              | (True, w2) \<Rightarrow>
                  if crawl cfg \<and> total_bytes s1 < max_total_bytes cfg
                  then (case expand E cfg s1 w2 seed of
                          (s2, w3) \<Rightarrow> run_seeds E cfg s2 w3 seeds)
                  else run_seeds E cfg s1 w2 seeds)))"

definition read_seeds :: "string list \<Rightarrow> string list" where
  "read_seeds lns =
     map strip (filter (\<lambda>ln. strip ln \<noteq> [] \<and> \<not> startswith (strip ln) ''#'') lns)"

definition initial :: state where
  "initial = \<lparr>seen_urls = {}, seen_hashes = {}, total_bytes = 0, files = [], log_lines = []\<rparr>"

text \<open>
  \<open>main\<close> on the lines of the seeds file: the state in which the run ends, whether it
  ends by reaching the last line or by an exception that nothing catches.
\<close>

definition main :: "'w env \<Rightarrow> args \<Rightarrow> 'w \<Rightarrow> string list \<Rightarrow> unit outcome \<times> state \<times> 'w" where
  "main E cfg w lns = run_seeds E cfg initial w (read_seeds lns)"

section \<open>Notions used by the properties\<close>

text \<open>The bytes of the file written last, 0 when none was written.\<close>

definition last_added :: "saved_file list \<Rightarrow> int" where
  "last_added fs = (if fs = [] then 0 else added (last fs))"

text \<open>
  The origin of a URL, as \<open>ok_by_robots\<close> forms it in front of \<open>/robots.txt\<close>: the
  scheme and the netloc.
\<close>

definition origin :: "'w env \<Rightarrow> string \<Rightarrow> string outcome" where
  "origin E url =
     (case urlparse E url of
        Raised \<Rightarrow> Raised
      | Returned p \<Rightarrow> Returned (scheme p @ ''://'' @ netloc p))"

text \<open>The hrefs of a page that \<open>collect_links\<close> keeps, resolved against the base URL.\<close>

definition kept_link :: "'w env \<Rightarrow> string \<Rightarrow> string \<Rightarrow> bool \<Rightarrow> string \<Rightarrow> string \<Rightarrow> bool" where
  "kept_link E base_url base_domain same a abs_url =
     (\<not> dropped_href (strip a) \<and> urljoin E base_url (strip a) = Returned abs_url \<and>
      (if same then (case urlparse E abs_url of
                       Raised \<Rightarrow> False
                     | Returned p \<Rightarrow> netloc p = base_domain)
       else True))"

text \<open>
  The file that \<open>save_txt\<close> writes for a URL that was parsed as \<open>p\<close>, at the time
  \<open>stamp\<close>: what it hands to \<open>write_file\<close> and what it returns.
\<close>

definition saved_as :: "parsed \<Rightarrow> string \<Rightarrow> string option \<Rightarrow> string \<Rightarrow> string \<Rightarrow> saved_file" where
  "saved_as p url title stamp body =
     \<lparr>for_url = url,
      file_name = slug_base p @ ''-'' @ slug_hash url @ ''.txt'',
      file_content = file_text url title stamp body,
      added = int (length (utf8_encode (file_text url title stamp body)))\<rparr>"

text \<open>
  Every file was written for a different URL, each of them visited, and \<open>total_bytes\<close>
  is the sum of the sizes of the files.
\<close>

definition one_file_per_url :: "state \<Rightarrow> bool" where
  "one_file_per_url s =
     (distinct (map for_url (files s)) \<and> for_url ` set (files s) \<subseteq> seen_urls s \<and>
      total_bytes s = sum_list (map added (files s)))"

text \<open>Before the file written last, \<open>total_bytes\<close> was below the budget.\<close>

definition within_budget :: "args \<Rightarrow> state \<Rightarrow> bool" where
  "within_budget cfg s =
     (if files s = [] then total_bytes s = 0
      else total_bytes s < max_total_bytes cfg + added (last (files s)))"

section \<open>A small web\<close>

text \<open>
  An environment to run the scraper in. Its \<open>urlparse\<close> and \<open>urljoin\<close> are the library's
  on URLs of the shape \<open>scheme://netloc/path?query#fragment\<close> and on hrefs that are
  absolute or start with a slash. Its world has no state. The site \<open>a.com\<close> disallows
  \<open>/private\<close>, serves the same long page at \<open>/x\<close> and \<open>/y\<close>, a short page, a PDF and
  a home page with three anchors; the extraction of a page is the page itself. The
  encyclopedia has one article under two titles.
\<close>

definition simple_urlparse :: "string \<Rightarrow> parsed outcome" where
  "simple_urlparse url =
     (let sch = takeWhile (\<lambda>c. c \<noteq> CHR '':'') url;
          rest = drop (length sch + 3) url;
          loc = takeWhile (\<lambda>c. c \<notin> set ''/?#'') rest
      in Returned \<lparr>scheme = sch, netloc = loc,
                   path = takeWhile (\<lambda>c. c \<notin> set ''?#'') (drop (length loc) rest)\<rparr>)"

definition simple_urljoin :: "string \<Rightarrow> string \<Rightarrow> string outcome" where
  "simple_urljoin base href =
     (if contains ''://'' href then Returned href
      else (case simple_urlparse base of
              Raised \<Rightarrow> Raised
            | Returned p \<Rightarrow> Returned (scheme p @ ''://'' @ netloc p @ href)))"

definition otter_text :: string where
  "otter_text = ''Otters are carnivorous mammals.''"

definition long_page :: string where
  "long_page = replicate 300 (CHR ''a'')"

definition home_page :: string where
  "home_page = ''<a href=https://a.com/x>x</a> <a href=#top>top</a> <a href=http://b.org/>b</a>''"

definition web_get :: "string \<Rightarrow> response outcome" where
  "web_get url =
     (if url = ''https://en.wikipedia.org/api/rest_v1/page/plain/Otter''
      then Returned \<lparr>status_code = 200, content_type = ''text/plain'',
                     resp_text = otter_text, json_title = Raised\<rparr>
      else if url = ''https://en.wikipedia.org/api/rest_v1/page/summary/Otter''
      then Returned \<lparr>status_code = 200, content_type = ''application/json'',
                     resp_text = [], json_title = Returned (Some ''Otter'')\<rparr>
      else if url = ''http://a.com/doc.pdf''
      then Returned \<lparr>status_code = 200, content_type = ''application/pdf'',
                     resp_text = ''%PDF-1.7'', json_title = Raised\<rparr>
      else if url = ''http://a.com/short''
      then Returned \<lparr>status_code = 200, content_type = ''text/html'',
                     resp_text = ''A short page.'', json_title = Raised\<rparr>
      else if url = ''http://a.com/x'' \<or> url = ''http://a.com/y''
      then Returned \<lparr>status_code = 200, content_type = ''text/html; charset=utf-8'',
                     resp_text = long_page, json_title = Raised\<rparr>
      else if url = ''http://a.com/''
      then Returned \<lparr>status_code = 200, content_type = ''text/html'',
                     resp_text = home_page, json_title = Raised\<rparr>
      else if url = ''https://en.wikipedia.org/api/rest_v1/page/plain/Otters''
      then Returned \<lparr>status_code = 200, content_type = ''text/plain'',
                     resp_text = otter_text, json_title = Raised\<rparr>
      else if url = ''https://en.wikipedia.org/api/rest_v1/page/summary/Otters''
      then Returned \<lparr>status_code = 200, content_type = ''application/json'',
                     resp_text = [], json_title = Returned (Some ''Otter'')\<rparr>
      else Raised)"

definition web :: "unit env" where
  "web = \<lparr>urlparse = simple_urlparse,
          urljoin = simple_urljoin,
          unquote = (\<lambda>s. s),
          anchor_hrefs = (\<lambda>html. Returned
            (if html = home_page then [''https://a.com/x'', ''#top'', ''http://b.org/''] else [])),
          robots_urlopen = (\<lambda>w robots_url.
            (Returned (Body (''User-agent: *'' @ nl @ ''Disallow: /private'')), w)),
          robots_rules = (\<lambda>body ua url. Returned (\<not> contains ''/private'' url)),
          session_get = (\<lambda>w url tmo. (web_get url, w)),
          trafilatura_extract = (\<lambda>w html. (Returned (Some html), w)),
          trafilatura_title = (\<lambda>w html. (None, w)),
          strftime = (\<lambda>w. (''2025-01-01 00:00:00'', w)),
          write_file = (\<lambda>w name content. (True, w)),
          shuffle = (\<lambda>w links. (links, w)),
          sleep = (\<lambda>w. (True, w))\<rparr>"

text \<open>
  The same web when no connection for its robots files can be made, when their server
  answers with the status 503, and when no file can be written.
\<close>

definition web_without_robots :: "unit env" where
  "web_without_robots = web\<lparr>robots_urlopen := (\<lambda>w robots_url. (Raised, w))\<rparr>"

definition web_robots_unavailable :: "unit env" where
  "web_robots_unavailable =
     web\<lparr>robots_urlopen := (\<lambda>w robots_url. (Returned (HTTPError 503), w))\<rparr>"

definition web_disk_full :: "unit env" where
  "web_disk_full = web\<lparr>write_file := (\<lambda>w name content. (False, w))\<rparr>"

definition default_args :: args where
  "default_args = \<lparr>max_total_bytes = 1200000, timeout = 20, crawl = False, max_follow = 5,
                   same_domain = False, user_agent = ''RAG-Course-Scraper/1.0''\<rparr>"

text \<open>The state after the article of the small web was saved.\<close>

definition otter_saved :: state where
  "otter_saved =
     \<lparr>seen_urls = {''https://en.wikipedia.org/wiki/Otter''},
      seen_hashes = {''19a86466592bac575f99ee0ef812ff1f56d35c34''},
      total_bytes = 119,
      files = [\<lparr>for_url = ''https://en.wikipedia.org/wiki/Otter'',
                file_name = ''en.wikipedia.org-wiki-Otter-d5b320f6.txt'',
                file_content = file_text ''https://en.wikipedia.org/wiki/Otter'' (Some ''Otter'')
                  ''2025-01-01 00:00:00'' otter_text,
                added = 119\<rparr>],
      log_lines = [SAVED ''https://en.wikipedia.org/wiki/Otter'' 119 119]\<rparr>"

section \<open>What one call of \<open>process_url\<close> does\<close>

lemma save_txt_Returned:
  assumes "save_txt E w url title txt = (Returned f, w')"
  shows "for_url f = url" and "0 \<le> added f"
  using assms
  by (auto simp: save_txt_def Let_def split: outcome.splits prod.splits bool.splits)

lemma save_txt_oracles:
  assumes "urlparse E url = Returned p"
    and "strftime E w = (stamp, w1)"
    and "write_file E w1 (file_name (saved_as p url title stamp body))
           (file_content (saved_as p url title stamp body)) = (ok, w2)"
  shows "save_txt E w url title body =
           (if ok then Returned (saved_as p url title stamp body) else Raised, w2)"
  using assms by (simp add: save_txt_def slugify_def saved_as_def Let_def)

lemma process_url_seen:
  assumes "process_url E cfg s w url = (r, s', w')"
  shows "seen_urls s' = insert url (seen_urls s)"
  using assms
  by (auto simp: process_url_def Let_def logging_def
      split: if_splits prod.splits outcome.splits bool.splits acquired.splits)

lemma process_url_visited:
  assumes "url \<in> seen_urls s"
  shows "process_url E cfg s w url = (Returned (), s, w)"
  using assms by (simp add: process_url_def)

text \<open>A call writes nothing, or one file for its URL, below the budget.\<close>

lemma process_url_effect:
  assumes "process_url E cfg s w url = (r, s', w')"
  shows "(files s' = files s \<and> total_bytes s' = total_bytes s) \<or>
         (\<exists>f. url \<notin> seen_urls s \<and> total_bytes s < max_total_bytes cfg \<and> for_url f = url \<and>
              0 \<le> added f \<and>
              files s' = files s @ [f] \<and> total_bytes s' = total_bytes s + added f)"
  using assms
  by (auto simp: process_url_def Let_def logging_def
      split: if_splits prod.splits outcome.splits bool.splits acquired.splits
      dest: save_txt_Returned)

lemma fetch_wikipedia_plain_text:
  assumes "fetch_wikipedia_plain E w url tmo = (Returned (title, Some txt), w')"
  shows "strip txt \<noteq> []" and "txt \<noteq> []"
proof -
  show "strip txt \<noteq> []"
    using assms
    by (auto simp: fetch_wikipedia_plain_def Let_def
        split: outcome.splits prod.splits if_splits)
  then show "txt \<noteq> []" by (auto simp: strip_def)
qed

section \<open>What holds along a run\<close>

text \<open>
  A property that every call of \<open>process_url\<close> and every log line keeps holds at the end
  of the loops, however they end.
\<close>

lemma follow_links_invariant:
  assumes step: "\<And>s w url r s' w'. P s \<Longrightarrow> process_url E cfg s w url = (r, s', w') \<Longrightarrow> P s'"
    and "P s" and "follow_links E cfg s w links = (r, s', w')"
  shows "P s'"
  using assms(2,3)
proof (induction links arbitrary: s w)
  case Nil
  then show ?case by simp
next
  case (Cons link links)
  show ?case
  proof (cases "total_bytes s \<ge> max_total_bytes cfg")
    case True
    with Cons.prems show ?thesis by simp
  next
    case False
    obtain r1 s1 w1 where p: "process_url E cfg s w link = (r1, s1, w1)"
      by (cases "process_url E cfg s w link") auto
    from step [OF Cons.prems(1) p] have P1: "P s1" .
    show ?thesis
    proof (cases r1)
      case Raised
      with Cons.prems False p P1 show ?thesis by simp
    next
      case (Returned u)
      obtain ok w2 where sl: "sleep E w1 = (ok, w2)" by (cases "sleep E w1") auto
      show ?thesis
      proof (cases ok)
        case True
        with Cons.prems(2) False p Returned sl
        have "follow_links E cfg s1 w2 links = (r, s', w')" by simp
        from Cons.IH [OF P1 this] show ?thesis .
      next
        case False': False
        with Cons.prems(2) False p Returned sl P1 show ?thesis by simp
      qed
    qed
  qed
qed

lemma expand_invariant:
  assumes step: "\<And>s w url r s' w'. P s \<Longrightarrow> process_url E cfg s w url = (r, s', w') \<Longrightarrow> P s'"
    and lg: "\<And>s l. P s \<Longrightarrow> P (logging l s)"
    and "P s" and "expand E cfg s w seed = (s', w')"
  shows "P s'"
proof -
  have fl: "P s1" if "follow_links E cfg s w ls = (r, s1, w1)" for w ls r s1 w1
    using step assms(3) that by (rule follow_links_invariant)
  from assms(3,4) show ?thesis
    by (auto simp: expand_def split: prod.splits outcome.splits if_splits
        intro: lg dest: fl)
qed

lemma run_seeds_invariant:
  assumes step: "\<And>s w url r s' w'. P s \<Longrightarrow> process_url E cfg s w url = (r, s', w') \<Longrightarrow> P s'"
    and lg: "\<And>s l. P s \<Longrightarrow> P (logging l s)"
    and "P s" and "run_seeds E cfg s w seeds = (r, s', w')"
  shows "P s'"
  using assms(3,4)
proof (induction seeds arbitrary: s w)
  case Nil
  then show ?case by simp
next
  case (Cons seed seeds)
  show ?case
  proof (cases "total_bytes s \<ge> max_total_bytes cfg")
    case True
    with Cons.prems show ?thesis by simp
  next
    case False
    obtain r1 s1 w1 where p: "process_url E cfg s w seed = (r1, s1, w1)"
      by (cases "process_url E cfg s w seed") auto
    from step [OF Cons.prems(1) p] have P1: "P s1" .
    show ?thesis
    proof (cases r1)
      case Raised
      with Cons.prems False p P1 show ?thesis by simp
    next
      case (Returned u)
      obtain ok w2 where sl: "sleep E w1 = (ok, w2)" by (cases "sleep E w1") auto
      show ?thesis
      proof (cases ok)
        case False': False
        with Cons.prems(2) False p Returned sl P1 show ?thesis by simp
      next
        case True
        show ?thesis
        proof (cases "crawl cfg \<and> total_bytes s1 < max_total_bytes cfg")
          case no: False
          with Cons.prems(2) False p Returned sl True
          have "run_seeds E cfg s1 w2 seeds = (r, s', w')" by auto
          from Cons.IH [OF P1 this] show ?thesis .
        next
          case yes: True
          obtain s2 w3 where ex: "expand E cfg s1 w2 seed = (s2, w3)"
            by (cases "expand E cfg s1 w2 seed") auto
          from expand_invariant [where P = P, OF step lg P1 ex] have P2: "P s2" .
          from Cons.prems(2) False p Returned sl True yes ex
          have "run_seeds E cfg s2 w3 seeds = (r, s', w')" by simp
          from Cons.IH [OF P2 this] show ?thesis .
        qed
      qed
    qed
  qed
qed

lemma one_file_per_url_step:
  assumes "one_file_per_url s" and "process_url E cfg s w url = (r, s', w')"
  shows "one_file_per_url s'"
  using process_url_effect [OF assms(2)] process_url_seen [OF assms(2)] assms(1)
  by (auto simp: one_file_per_url_def image_subset_iff)

lemma one_file_per_url_logging: "one_file_per_url s \<Longrightarrow> one_file_per_url (logging l s)"
  by (simp add: one_file_per_url_def logging_def)

lemma within_budget_step:
  assumes "within_budget cfg s" and "process_url E cfg s w url = (r, s', w')"
  shows "within_budget cfg s'"
  using process_url_effect [OF assms(2)] assms(1)
  by (auto simp: within_budget_def)

lemma within_budget_logging: "within_budget cfg s \<Longrightarrow> within_budget cfg (logging l s)"
  by (simp add: within_budget_def logging_def)

text \<open>With a negative \<open>max_follow\<close> only the seeds are visited.\<close>

lemma followed_negative: "max_follow cfg < 0 \<Longrightarrow> followed cfg links = []"
  by (simp add: followed_def)

lemma expand_negative:
  assumes "max_follow cfg < 0" and "expand E cfg s w seed = (s', w')"
  shows "seen_urls s' = seen_urls s"
  using assms(2) followed_negative [OF assms(1)]
  by (auto simp: expand_def logging_def split: prod.splits outcome.splits if_splits)

lemma run_seeds_negative:
  assumes "max_follow cfg < 0" and "run_seeds E cfg s w seeds = (r, s', w')"
  shows "seen_urls s' \<subseteq> seen_urls s \<union> set seeds"
  using assms(2)
proof (induction seeds arbitrary: s w)
  case Nil
  then show ?case by simp
next
  case (Cons seed seeds)
  show ?case
  proof (cases "total_bytes s \<ge> max_total_bytes cfg")
    case True
    with Cons.prems show ?thesis by auto
  next
    case False
    obtain r1 s1 w1 where p: "process_url E cfg s w seed = (r1, s1, w1)"
      by (cases "process_url E cfg s w seed") auto
    from process_url_seen [OF p] have s1: "seen_urls s1 = insert seed (seen_urls s)" .
    show ?thesis
    proof (cases r1)
      case Raised
      with Cons.prems False p s1 show ?thesis by auto
    next
      case (Returned u)
      obtain ok w2 where sl: "sleep E w1 = (ok, w2)" by (cases "sleep E w1") auto
      show ?thesis
      proof (cases ok)
        case False': False
        with Cons.prems False p Returned sl s1 show ?thesis by auto
      next
        case True
        show ?thesis
        proof (cases "crawl cfg \<and> total_bytes s1 < max_total_bytes cfg")
          case no: False
          with Cons.prems False p Returned sl True
          have "run_seeds E cfg s1 w2 seeds = (r, s', w')" by auto
          from Cons.IH [OF this] s1 show ?thesis by auto
        next
          case yes: True
          obtain s2 w3 where ex: "expand E cfg s1 w2 seed = (s2, w3)"
            by (cases "expand E cfg s1 w2 seed") auto
          from expand_negative [OF assms(1) ex] have s2: "seen_urls s2 = seen_urls s1" .
          from Cons.prems False p Returned sl True yes ex
          have "run_seeds E cfg s2 w3 seeds = (r, s', w')" by simp
          from Cons.IH [OF this] s1 s2 show ?thesis by auto
        qed
      qed
    qed
  qed
qed

section \<open>The links of a page and the names of the files\<close>

lemma collect_loop_result:
  assumes "collect_loop E base bd same hrefs found = Returned links" and "distinct found"
  shows "distinct links \<and>
         set links = set found \<union> {u. \<exists>a\<in>set hrefs. kept_link E base bd same a u}"
  using assms
proof (induction hrefs arbitrary: found)
  case Nil
  then show ?case by simp
next
  case (Cons a hrefs)
  show ?case
  proof (cases "dropped_href (strip a)")
    case True
    with Cons.prems have "collect_loop E base bd same hrefs found = Returned links"
      by (simp add: Let_def)
    from Cons.IH [OF this Cons.prems(2)] True show ?thesis
      by (auto simp: kept_link_def)
  next
    case False
    show ?thesis
    proof (cases "urljoin E base (strip a)")
      case Raised
      with Cons.prems False show ?thesis by (simp add: Let_def)
    next
      case (Returned u)
      let ?found = "if u \<in> set found then found else found @ [u]"
      have d: "distinct ?found" using Cons.prems(2) by simp
      show ?thesis
      proof (cases "kept_link E base bd same a u")
        case True
        with Cons.prems(1) False Returned
        have "collect_loop E base bd same hrefs ?found = Returned links"
          by (auto simp: Let_def kept_link_def split: if_splits outcome.splits)
        from Cons.IH [OF this d] True False Returned show ?thesis
          by (auto simp: kept_link_def)
      next
        case no: False
        with Cons.prems(1) False Returned
        have "collect_loop E base bd same hrefs found = Returned links"
          by (auto simp: Let_def kept_link_def split: if_splits outcome.splits)
        from Cons.IH [OF this Cons.prems(2)] no False Returned show ?thesis
          by (auto simp: kept_link_def)
      qed
    qed
  qed
qed

lemma hex_u32_length: "length (hex_u32 x) = 8"
  by (simp add: hex_u32_def)

lemma sha1_hexdigest_length: "length (sha1_hexdigest bs) = 40"
  by (simp add: sha1_hexdigest_def Let_def hex_u32_length split: prod.splits)

lemma slug_hash_length: "length (slug_hash url) = 8"
  by (simp add: slug_hash_def sha1_hexdigest_length)

section \<open>The small web, evaluated\<close>

lemma strip_long_page: "strip long_page = long_page"
  by (simp add: strip_def long_page_def isspace_def dropWhile_eq_self_iff)

lemma web_fresh:
  "u \<notin> seen_urls initial" "h \<notin> seen_hashes initial"
  "total_bytes initial < max_total_bytes default_args"
  by (simp_all add: initial_def default_args_def)

lemma web_robots_x:
  "ok_by_robots web () ''http://a.com/x'' (user_agent default_args) = (Returned True, ())"
  by code_simp

lemma web_robots_y:
  "ok_by_robots web () ''http://a.com/y'' (user_agent default_args) = (Returned True, ())"
  by code_simp

lemma web_acquire_x:
  "acquire web default_args () ''http://a.com/x'' = (Returned (Text None long_page), ())"
  by code_simp

lemma web_acquire_y:
  "acquire web default_args () ''http://a.com/y'' = (Returned (Text None long_page), ())"
  by code_simp

lemma web_robots_otter:
  "ok_by_robots web () ''https://en.wikipedia.org/wiki/Otter'' (user_agent default_args) =
     (Returned True, ())"
  by code_simp

lemma web_wikipedia_otter:
  "fetch_wikipedia_plain web () ''https://en.wikipedia.org/wiki/Otter'' (timeout default_args) =
     (Returned (Some ''Otter'', Some otter_text), ())"
  by code_simp

section \<open>The claims\<close>

subsection \<open>C1: a URL that robots.txt disallows\<close>

text \<open>
  Claim C1, as amended. When \<open>ok_by_robots\<close> answers that the URL is disallowed,
  \<open>process_url\<close> returns without an exception, writes no file and leaves \<open>seen_hashes\<close>
  and \<open>total_bytes\<close> as they were. \<open>seen_urls\<close> is not left alone: the URL is in it
  afterwards, because the call marks the URL visited before it asks robots.txt.
\<close>

theorem robots_blocked_frame:
  assumes "ok_by_robots E w url (user_agent cfg) = (Returned False, w1)"
    and "process_url E cfg s w url = (r, s', w')"
  shows "r = Returned () \<and> files s' = files s \<and> seen_hashes s' = seen_hashes s \<and>
         total_bytes s' = total_bytes s \<and> seen_urls s' = insert url (seen_urls s)"
  using assms
  by (auto simp: process_url_def Let_def logging_def split: if_splits)

text \<open>The theorem at the disallowed page of the small web, in the initial state.\<close>

theorem robots_blocked_frame_witness:
  "fst (process_url web default_args initial () ''http://a.com/private/p'') = Returned () \<and>
   files (fst (snd (process_url web default_args initial () ''http://a.com/private/p''))) =
     files initial \<and>
   seen_hashes (fst (snd (process_url web default_args initial () ''http://a.com/private/p''))) =
     seen_hashes initial \<and>
   total_bytes (fst (snd (process_url web default_args initial () ''http://a.com/private/p''))) =
     total_bytes initial \<and>
   seen_urls (fst (snd (process_url web default_args initial () ''http://a.com/private/p''))) =
     insert ''http://a.com/private/p'' (seen_urls initial)"
proof -
  have blocked: "ok_by_robots web () ''http://a.com/private/p'' (user_agent default_args) =
      (Returned False, ())"
    by code_simp
  have call: "process_url web default_args initial () ''http://a.com/private/p'' =
      (fst (process_url web default_args initial () ''http://a.com/private/p''),
       fst (snd (process_url web default_args initial () ''http://a.com/private/p'')),
       snd (snd (process_url web default_args initial () ''http://a.com/private/p'')))"
    by (simp add: prod_eq_iff)
  from robots_blocked_frame [OF blocked call] show ?thesis .
qed

text \<open>
  Claim C1 as stated fails: the page is disallowed, and the call changes \<open>seen_urls\<close>,
  which was empty and now holds the URL.
\<close>

theorem robots_blocked_marks_visited:
  "ok_by_robots web () ''http://a.com/private/p'' (user_agent default_args) =
     (Returned False, ()) \<and>
   seen_urls initial = {} \<and>
   seen_urls (fst (snd (process_url web default_args initial () ''http://a.com/private/p''))) =
     {''http://a.com/private/p''} \<and>
   seen_urls (fst (snd (process_url web default_args initial () ''http://a.com/private/p''))) \<noteq>
     seen_urls initial"
  by code_simp

subsection \<open>C2: the budget\<close>

text \<open>
  Claim C2, as amended. When \<open>max_total_bytes\<close> is not negative, \<open>total_bytes\<close> at the
  end of a run, however the run ends, is at most \<open>max_total_bytes\<close> plus the size of the
  file written last; it is 0 when no file was written, and otherwise it was below
  \<open>max_total_bytes\<close> before the last file was written. The budget is compared before a
  URL is processed, not while a file is written, so only the last file can take
  \<open>total_bytes\<close> past the budget.
\<close>

theorem budget_overshoot:
  assumes "0 \<le> max_total_bytes cfg" and "main E cfg w lns = (r, s, w')"
  shows "total_bytes s \<le> max_total_bytes cfg + last_added (files s) \<and>
         (if files s = [] then total_bytes s = 0
          else total_bytes s - added (last (files s)) < max_total_bytes cfg)"
proof -
  have "within_budget cfg initial" by (simp add: within_budget_def initial_def)
  moreover from assms(2) have "run_seeds E cfg initial w (read_seeds lns) = (r, s, w')"
    by (simp add: main_def)
  ultimately have "within_budget cfg s"
    by (rule run_seeds_invariant [where P = "within_budget cfg", rotated 2])
      (auto intro: within_budget_step within_budget_logging)
  with assms(1) show ?thesis
    by (auto simp: within_budget_def last_added_def split: if_splits)
qed

text \<open>
  A run with a budget of 100 bytes: the first seed gives a file of 119 bytes, which is
  past the budget, and the second seed is not processed. A run on a seed that gives no
  file ends with \<open>total_bytes = 0\<close>.
\<close>

theorem budget_overshoot_witness:
  "main web (default_args\<lparr>max_total_bytes := 100\<rparr>) ()
     [''https://en.wikipedia.org/wiki/Otter'', ''http://a.com/x''] =
     (Returned (),
      \<lparr>seen_urls = {''https://en.wikipedia.org/wiki/Otter''},
       seen_hashes = {''19a86466592bac575f99ee0ef812ff1f56d35c34''},
       total_bytes = 119,
       files = [\<lparr>for_url = ''https://en.wikipedia.org/wiki/Otter'',
                 file_name = ''en.wikipedia.org-wiki-Otter-d5b320f6.txt'',
                 file_content = file_text ''https://en.wikipedia.org/wiki/Otter'' (Some ''Otter'')
                   ''2025-01-01 00:00:00'' otter_text,
                 added = 119\<rparr>],
       log_lines = [SAVED ''https://en.wikipedia.org/wiki/Otter'' 119 119]\<rparr>, ()) \<and>
   (119 :: int) \<le> 100 + 119 \<and> (119 :: int) - 119 < 100 \<and>
   files (fst (snd (main web (default_args\<lparr>max_total_bytes := 100\<rparr>) ()
     [''http://a.com/doc.pdf'']))) = [] \<and>
   total_bytes (fst (snd (main web (default_args\<lparr>max_total_bytes := 100\<rparr>) ()
     [''http://a.com/doc.pdf'']))) = 0"
proof -
  have run: "main web (default_args\<lparr>max_total_bytes := 100\<rparr>) ()
     [''https://en.wikipedia.org/wiki/Otter'', ''http://a.com/x''] =
     (Returned (),
      \<lparr>seen_urls = {''https://en.wikipedia.org/wiki/Otter''},
       seen_hashes = {''19a86466592bac575f99ee0ef812ff1f56d35c34''},
       total_bytes = 119,
       files = [\<lparr>for_url = ''https://en.wikipedia.org/wiki/Otter'',
                 file_name = ''en.wikipedia.org-wiki-Otter-d5b320f6.txt'',
                 file_content = file_text ''https://en.wikipedia.org/wiki/Otter'' (Some ''Otter'')
                   ''2025-01-01 00:00:00'' otter_text,
                 added = 119\<rparr>],
       log_lines = [SAVED ''https://en.wikipedia.org/wiki/Otter'' 119 119]\<rparr>, ())"
    by code_simp
  have none: "files (fst (snd (main web (default_args\<lparr>max_total_bytes := 100\<rparr>) ()
      [''http://a.com/doc.pdf'']))) = []"
    by code_simp
  have budget: "0 \<le> max_total_bytes (default_args\<lparr>max_total_bytes := 100\<rparr>)" by simp
  have pdf: "main web (default_args\<lparr>max_total_bytes := 100\<rparr>) () [''http://a.com/doc.pdf''] =
      (fst (main web (default_args\<lparr>max_total_bytes := 100\<rparr>) () [''http://a.com/doc.pdf'']),
       fst (snd (main web (default_args\<lparr>max_total_bytes := 100\<rparr>) () [''http://a.com/doc.pdf''])),
       snd (snd (main web (default_args\<lparr>max_total_bytes := 100\<rparr>) () [''http://a.com/doc.pdf''])))"
    by (simp add: prod_eq_iff)
  from budget_overshoot [OF budget pdf] none
  have "total_bytes (fst (snd (main web (default_args\<lparr>max_total_bytes := 100\<rparr>) ()
      [''http://a.com/doc.pdf'']))) = 0"
    by simp
  with budget_overshoot [OF budget run] run none show ?thesis
    by (simp add: last_added_def)
qed

text \<open>
  Claim C2 as stated fails for a negative budget: the run stops before the first seed,
  no file is written, and \<open>total_bytes\<close> is 0, which is past the budget by more than the
  361 bytes that the page of the seed would have taken.
\<close>

theorem negative_budget_exceeded:
  "main web (default_args\<lparr>max_total_bytes := - 1000000\<rparr>) () [''http://a.com/x''] =
     (Returned (), initial, ()) \<and>
   files initial = [] \<and> total_bytes initial = 0 \<and>
   \<not> total_bytes initial \<le>
       max_total_bytes (default_args\<lparr>max_total_bytes := - 1000000\<rparr>) + last_added (files initial) \<and>
   \<not> total_bytes initial \<le> max_total_bytes (default_args\<lparr>max_total_bytes := - 1000000\<rparr>) + 361"
  by code_simp

subsection \<open>C3: a URL presented more than once\<close>

text \<open>
  Claim C3. A call of \<open>process_url\<close> for a URL that is in \<open>seen_urls\<close> returns at once
  and changes neither the state nor the world; any call adds its URL to \<open>seen_urls\<close> and
  takes nothing out of it, so every later call for that URL is such a call; and at the
  end of a run no two files were written for the same URL, and \<open>total_bytes\<close> is the sum
  of the sizes of these files, so it was increased once for each.
\<close>

theorem process_url_once:
  "(u \<in> seen_urls s \<longrightarrow> process_url E cfg s w u = (Returned (), s, w)) \<and>
   (process_url E cfg s w u = (r, s', w') \<longrightarrow> seen_urls s' = insert u (seen_urls s)) \<and>
   (main E cfg wi lns = (re, se, we) \<longrightarrow>
      distinct (map for_url (files se)) \<and> total_bytes se = sum_list (map added (files se)))"
proof (intro conjI impI)
  assume "u \<in> seen_urls s"
  then show "process_url E cfg s w u = (Returned (), s, w)" by (rule process_url_visited)
next
  assume "process_url E cfg s w u = (r, s', w')"
  then show "seen_urls s' = insert u (seen_urls s)" by (rule process_url_seen)
next
  assume m: "main E cfg wi lns = (re, se, we)"
  have "one_file_per_url initial" by (simp add: one_file_per_url_def initial_def)
  moreover from m have "run_seeds E cfg initial wi (read_seeds lns) = (re, se, we)"
    by (simp add: main_def)
  ultimately have "one_file_per_url se"
    by (rule run_seeds_invariant [where P = one_file_per_url, rotated 2])
      (auto intro: one_file_per_url_step one_file_per_url_logging)
  then show "distinct (map for_url (files se))"
    and "total_bytes se = sum_list (map added (files se))"
    by (simp_all add: one_file_per_url_def)
qed

text \<open>
  The seed list with the same line twice: the state after the first call, the second
  call on it, and the run, which ends in the same state with one file.
\<close>

theorem process_url_once_witness:
  "process_url web default_args initial () ''https://en.wikipedia.org/wiki/Otter'' =
     (Returned (), otter_saved, ()) \<and>
   ''https://en.wikipedia.org/wiki/Otter'' \<in> seen_urls otter_saved \<and>
   process_url web default_args otter_saved () ''https://en.wikipedia.org/wiki/Otter'' =
     (Returned (), otter_saved, ()) \<and>
   main web default_args ()
     [''https://en.wikipedia.org/wiki/Otter'', ''https://en.wikipedia.org/wiki/Otter''] =
     (Returned (), otter_saved, ()) \<and>
   distinct (map for_url (files otter_saved)) \<and>
   total_bytes otter_saved = sum_list (map added (files otter_saved))"
proof -
  have first: "process_url web default_args initial () ''https://en.wikipedia.org/wiki/Otter'' =
     (Returned (), otter_saved, ())"
    by code_simp
  have run: "main web default_args ()
     [''https://en.wikipedia.org/wiki/Otter'', ''https://en.wikipedia.org/wiki/Otter''] =
     (Returned (), otter_saved, ())"
    by code_simp
  note at_first = process_url_once [where u = "''https://en.wikipedia.org/wiki/Otter''"
      and s = initial and E = web and cfg = default_args and w = "()" and r = "Returned ()"
      and s' = otter_saved and w' = "()" and wi = "()"
      and lns = "[''https://en.wikipedia.org/wiki/Otter'', ''https://en.wikipedia.org/wiki/Otter'']"
      and re = "Returned ()" and se = otter_saved and we = "()"]
  from at_first first
  have "seen_urls otter_saved = insert ''https://en.wikipedia.org/wiki/Otter'' (seen_urls initial)"
    by blast
  then have seen: "''https://en.wikipedia.org/wiki/Otter'' \<in> seen_urls otter_saved"
    by blast
  from at_first run
  have files: "distinct (map for_url (files otter_saved)) \<and>
      total_bytes otter_saved = sum_list (map added (files otter_saved))"
    by blast
  note at_second = process_url_once [where u = "''https://en.wikipedia.org/wiki/Otter''"
      and s = otter_saved and E = web and cfg = default_args and w = "()" and r = "Returned ()"
      and s' = otter_saved and w' = "()" and wi = "()"
      and lns = "[''https://en.wikipedia.org/wiki/Otter'', ''https://en.wikipedia.org/wiki/Otter'']"
      and re = "Returned ()" and se = otter_saved and we = "()"]
  from at_second seen
  have "process_url web default_args otter_saved () ''https://en.wikipedia.org/wiki/Otter'' =
      (Returned (), otter_saved, ())"
    by blast
  with first seen run files show ?thesis by blast
qed

subsection \<open>C4: robots.txt that cannot be read\<close>

text \<open>
  For every environment: when an exception leaves \<open>read\<close> or \<open>can_fetch\<close>, the answer is
  \<open>True\<close>; when \<open>read\<close> kept an \<open>HTTPError\<close> to itself, nothing was read and the answer
  depends on the status alone, \<open>False\<close> for 401 and 403 and for every status outside
  400 to 499.
\<close>

lemma ok_by_robots_raised:
  assumes "urlparse E url = Returned p"
    and "robots_urlopen E w (scheme p @ ''://'' @ netloc p @ ''/robots.txt'') = (Raised, w')"
  shows "ok_by_robots E w url ua = (Returned True, w')"
  using assms
  by (simp add: ok_by_robots_def read_def set_url_def RobotFileParser_def Let_def)

lemma ok_by_robots_body:
  assumes "urlparse E url = Returned p"
    and "robots_urlopen E w (scheme p @ ''://'' @ netloc p @ ''/robots.txt'') =
           (Returned (Body raw), w')"
  shows "ok_by_robots E w url ua =
           (Returned (case robots_rules E raw ua url of Raised \<Rightarrow> True | Returned b \<Rightarrow> b), w')"
  using assms
  by (simp add: ok_by_robots_def read_def can_fetch_def set_url_def RobotFileParser_def Let_def
      split: outcome.splits)

lemma ok_by_robots_http_error:
  assumes "urlparse E url = Returned p"
    and "robots_urlopen E w (scheme p @ ''://'' @ netloc p @ ''/robots.txt'') =
           (Returned (HTTPError code), w')"
  shows "ok_by_robots E w url ua =
           (Returned (code \<noteq> 401 \<and> code \<noteq> 403 \<and> 400 \<le> code \<and> code < 500), w')"
  using assms
  by (simp add: ok_by_robots_def read_def can_fetch_def set_url_def RobotFileParser_def Let_def)

text \<open>
  Claim C4. When no connection for robots.txt can be made, \<open>ok_by_robots\<close> returns
  \<open>True\<close> for the page that robots.txt disallows, as the claim says. When the server
  answers the request for robots.txt with the status 503, the robots resource was not
  read either, but \<open>ok_by_robots\<close> returns \<open>False\<close> for a page that robots.txt allows,
  and \<open>process_url\<close> logs \<open>ROBOTS-BLOCKED\<close> for it: here the code does not do what the
  claim says.
\<close>

theorem robots_unavailable_denies:
  "ok_by_robots web_without_robots () ''http://a.com/private/p'' ''ua'' = (Returned True, ()) \<and>
   ok_by_robots web () ''http://a.com/x'' ''ua'' = (Returned True, ()) \<and>
   robots_urlopen web_robots_unavailable () ''http://a.com/robots.txt'' =
     (Returned (HTTPError 503), ()) \<and>
   ok_by_robots web_robots_unavailable () ''http://a.com/x'' ''ua'' = (Returned False, ()) \<and>
   process_url web_robots_unavailable default_args initial () ''http://a.com/x'' =
     (Returned (),
      \<lparr>seen_urls = {''http://a.com/x''}, seen_hashes = {}, total_bytes = 0, files = [],
       log_lines = [ROBOTS_BLOCKED ''http://a.com/x'']\<rparr>, ())"
  by code_simp

subsection \<open>C5: the rejections of the general path\<close>



subsection \<open>C6: two URLs with the same text\<close>

text \<open>
  Claim C6, as amended. Let two different URLs be new, robots.txt allow both, both calls
  acquire a text, the two texts equal after trimming, the fingerprint be new, and the
  budget not be used up before either call. Then the first call records the fingerprint
  and hands one file to \<open>write_file\<close>, and the second call logs \<open>DUPLICATE\<close> and ends in
  the world that its acquisition left, so it writes nothing. After both calls one file
  has been written if that one write succeeded, and none if it raised: the fingerprint
  is recorded before the file is written.
\<close>

theorem identical_text_one_file:
  assumes "u1 \<notin> seen_urls s" and "u2 \<notin> seen_urls s" and "u1 \<noteq> u2"
    and "total_bytes s < max_total_bytes cfg"
    and "ok_by_robots E w u1 (user_agent cfg) = (Returned True, wa)"
    and "acquire E cfg wa u1 = (Returned (Text title1 t1), wb)"
    and "sha1_hexdigest (utf8_encode (strip t1)) \<notin> seen_hashes s"
    and "urlparse E u1 = Returned p"
    and "strftime E wb = (stamp, wts)"
    and "write_file E wts (file_name (saved_as p u1 title1 stamp t1))
           (file_content (saved_as p u1 title1 stamp t1)) = (ok, w1)"
    and "total_bytes s + (if ok then added (saved_as p u1 title1 stamp t1) else 0)
           < max_total_bytes cfg"
    and "ok_by_robots E w2 u2 (user_agent cfg) = (Returned True, wc)"
    and "acquire E cfg wc u2 = (Returned (Text title2 t2), wd)"
    and "strip t2 = strip t1"
  shows "\<exists>s1 s2. process_url E cfg s w u1 = (Returned (), s1, w1) \<and>
           process_url E cfg s1 w2 u2 = (Returned (), s2, wd) \<and>
           files s1 = files s @ (if ok then [saved_as p u1 title1 stamp t1] else []) \<and>
           files s2 = files s1 \<and> total_bytes s2 = total_bytes s1 \<and>
           seen_hashes s2 = insert (sha1_hexdigest (utf8_encode (strip t1))) (seen_hashes s) \<and>
           log_lines s2 =
             log_lines s @
               [if ok then SAVED u1 (added (saved_as p u1 title1 stamp t1))
                             (total_bytes s + added (saved_as p u1 title1 stamp t1))
                else ERROR u1,
                DUPLICATE u2]"
proof -
  note save = save_txt_oracles [OF assms(8,9,10)]
  show ?thesis
  proof (cases ok)
    case True
    with assms save show ?thesis
      by (simp add: process_url_def Let_def logging_def)
  next
    case False
    with assms save show ?thesis
      by (simp add: process_url_def Let_def logging_def)
  qed
qed

text \<open>The pages \<open>/x\<close> and \<open>/y\<close> of the small web, which are the same.\<close>

theorem identical_text_one_file_witness:
  "file_name (saved_as \<lparr>scheme = ''http'', netloc = ''a.com'', path = ''/x''\<rparr> ''http://a.com/x''
     None ''2025-01-01 00:00:00'' long_page) = ''a.com-x-531983ae.txt'' \<and>
   added (saved_as \<lparr>scheme = ''http'', netloc = ''a.com'', path = ''/x''\<rparr> ''http://a.com/x''
     None ''2025-01-01 00:00:00'' long_page) = 361 \<and>
   (\<exists>s1 s2. process_url web default_args initial () ''http://a.com/x'' = (Returned (), s1, ()) \<and>
     process_url web default_args s1 () ''http://a.com/y'' = (Returned (), s2, ()) \<and>
     files s1 = [saved_as \<lparr>scheme = ''http'', netloc = ''a.com'', path = ''/x''\<rparr>
       ''http://a.com/x'' None ''2025-01-01 00:00:00'' long_page] \<and>
     files s2 = files s1 \<and> total_bytes s2 = total_bytes s1 \<and>
     log_lines s2 = [SAVED ''http://a.com/x'' 361 361, DUPLICATE ''http://a.com/y''])"
proof -
  let ?f = "saved_as \<lparr>scheme = ''http'', netloc = ''a.com'', path = ''/x''\<rparr> ''http://a.com/x''
     None ''2025-01-01 00:00:00'' long_page"
  have name: "file_name ?f = ''a.com-x-531983ae.txt''" and size: "added ?f = 361"
    by code_simp+
  have parsed: "urlparse web ''http://a.com/x'' =
      Returned \<lparr>scheme = ''http'', netloc = ''a.com'', path = ''/x''\<rparr>"
    by code_simp
  have stamp: "strftime web () = (''2025-01-01 00:00:00'', ())"
    and written: "write_file web () (file_name ?f) (file_content ?f) = (True, ())"
    by (simp_all add: web_def)
  have room: "total_bytes initial + (if True then added ?f else 0) < max_total_bytes default_args"
    by (simp add: size initial_def default_args_def)
  from identical_text_one_file [OF web_fresh(1) web_fresh(1) _ web_fresh(3) web_robots_x
      web_acquire_x web_fresh(2) parsed stamp written room web_robots_y web_acquire_y]
  have "\<exists>s1 s2. process_url web default_args initial () ''http://a.com/x'' = (Returned (), s1, ()) \<and>
     process_url web default_args s1 () ''http://a.com/y'' = (Returned (), s2, ()) \<and>
     files s1 = [?f] \<and> files s2 = files s1 \<and> total_bytes s2 = total_bytes s1 \<and>
     log_lines s2 = [SAVED ''http://a.com/x'' 361 361, DUPLICATE ''http://a.com/y'']"
    by (auto simp: size initial_def)
  with name size show ?thesis by blast
qed

text \<open>
  Claim C6 as stated fails: when no file can be written, the two titles of the article,
  whose texts are the same, give no output file at all. The first is logged \<open>ERROR\<close>
  after its fingerprint was recorded, the second \<open>DUPLICATE\<close>.
\<close>

theorem identical_text_no_file:
  "''https://en.wikipedia.org/wiki/Otter'' \<noteq> ''https://en.wikipedia.org/wiki/Otters'' \<and>
   acquire web_disk_full default_args () ''https://en.wikipedia.org/wiki/Otter'' =
     (Returned (Text (Some ''Otter'') otter_text), ()) \<and>
   acquire web_disk_full default_args () ''https://en.wikipedia.org/wiki/Otters'' =
     (Returned (Text (Some ''Otter'') otter_text), ()) \<and>
   main web_disk_full default_args ()
     [''https://en.wikipedia.org/wiki/Otter'', ''https://en.wikipedia.org/wiki/Otters''] =
     (Returned (),
      \<lparr>seen_urls = {''https://en.wikipedia.org/wiki/Otter'', ''https://en.wikipedia.org/wiki/Otters''},
       seen_hashes = {''19a86466592bac575f99ee0ef812ff1f56d35c34''},
       total_bytes = 0,
       files = [],
       log_lines = [ERROR ''https://en.wikipedia.org/wiki/Otter'',
                    DUPLICATE ''https://en.wikipedia.org/wiki/Otters'']\<rparr>, ())"
  by code_simp

subsection \<open>C7: the links of a page\<close>

text \<open>
  Claim C7, as amended. When \<open>collect_links\<close> returns, its result has no duplicates and
  consists of the hrefs of the anchors, trimmed and resolved against the base URL by
  \<open>urljoin\<close>, without those whose trimmed href starts with \<open>#\<close>, \<open>mailto:\<close> or
  \<open>javascript:\<close> and, when \<open>same_domain\<close> is set, without those whose netloc differs from
  the netloc of the base URL. The scheme is not compared.
\<close>

theorem collect_links_result:
  assumes "collect_links E base_url html same = Returned links"
  shows "distinct links \<and>
         (\<exists>hrefs bp. anchor_hrefs E html = Returned hrefs \<and> urlparse E base_url = Returned bp \<and>
            set links = {u. \<exists>a\<in>set hrefs. kept_link E base_url (netloc bp) same a u})"
  using assms collect_loop_result [of E base_url _ same _ "[]" links]
  by (auto simp: collect_links_def split: outcome.splits)

text \<open>The home page of the small web, within its domain.\<close>

theorem collect_links_result_witness:
  "collect_links web ''http://a.com/'' home_page True = Returned [''https://a.com/x''] \<and>
   distinct [''https://a.com/x''] \<and>
   (\<exists>hrefs bp. anchor_hrefs web home_page = Returned hrefs \<and>
      urlparse web ''http://a.com/'' = Returned bp \<and>
      set [''https://a.com/x''] =
        {u. \<exists>a\<in>set hrefs. kept_link web ''http://a.com/'' (netloc bp) True a u})"
proof -
  have links: "collect_links web ''http://a.com/'' home_page True = Returned [''https://a.com/x'']"
    by code_simp
  from collect_links_result [OF links] links show ?thesis by simp
qed

text \<open>
  Claim C7 as stated fails: with \<open>same_domain\<close> set, the link from the page at
  \<open>http://a.com\<close> to \<open>https://a.com/x\<close> is kept, and its origin is another one.
\<close>

theorem other_origin_kept:
  "collect_links web ''http://a.com/'' home_page True = Returned [''https://a.com/x''] \<and>
   origin web ''https://a.com/x'' = Returned ''https://a.com'' \<and>
   origin web ''http://a.com/'' = Returned ''http://a.com'' \<and>
   origin web ''https://a.com/x'' \<noteq> origin web ''http://a.com/''"
  by code_simp

subsection \<open>C8: the names of the files\<close>

text \<open>
  Claim C8, as amended. The name that \<open>slugify\<close> gives is a function of the URL, and two
  URLs get the same name exactly when their sanitized host and path are the same and the
  first eight hexadecimal digits of the SHA-1 of the two URLs are the same. Naming is
  not injective: different URLs can get the same name.
\<close>

theorem slugify_collision_iff:
  assumes "urlparse E u1 = Returned p1" and "urlparse E u2 = Returned p2"
  shows "slugify E u1 = slugify E u2 \<longleftrightarrow>
         slug_base p1 = slug_base p2 \<and> slug_hash u1 = slug_hash u2"
  using assms by (simp add: slugify_def slug_hash_length)

text \<open>The pages \<open>/x\<close> and \<open>/y\<close> of the small web differ in the first part of the name.\<close>

theorem slugify_collision_iff_witness:
  "(slugify web ''http://a.com/x'' = slugify web ''http://a.com/y'') =
     (slug_base \<lparr>scheme = ''http'', netloc = ''a.com'', path = ''/x''\<rparr> =
      slug_base \<lparr>scheme = ''http'', netloc = ''a.com'', path = ''/y''\<rparr> \<and>
      slug_hash ''http://a.com/x'' = slug_hash ''http://a.com/y'') \<and>
   slug_base \<lparr>scheme = ''http'', netloc = ''a.com'', path = ''/x''\<rparr> = ''a.com-x'' \<and>
   slug_base \<lparr>scheme = ''http'', netloc = ''a.com'', path = ''/y''\<rparr> = ''a.com-y''"
proof -
  have x: "urlparse web ''http://a.com/x'' =
      Returned \<lparr>scheme = ''http'', netloc = ''a.com'', path = ''/x''\<rparr>"
    and y: "urlparse web ''http://a.com/y'' =
      Returned \<lparr>scheme = ''http'', netloc = ''a.com'', path = ''/y''\<rparr>"
    and bases: "slug_base \<lparr>scheme = ''http'', netloc = ''a.com'', path = ''/x''\<rparr> = ''a.com-x''"
      "slug_base \<lparr>scheme = ''http'', netloc = ''a.com'', path = ''/y''\<rparr> = ''a.com-y''"
    by code_simp+
  from slugify_collision_iff [OF x y] bases show ?thesis by simp
qed

text \<open>
  Claim C8 as stated fails: these two URLs differ in their query only, the SHA-1 of both
  starts with \<open>fcf52c27\<close>, and both get the name \<open>a.com-p-fcf52c27\<close>.
\<close>

theorem slugify_collision:
  "''http://a.com/p?i=46148'' \<noteq> ''http://a.com/p?i=61453'' \<and>
   slugify web ''http://a.com/p?i=46148'' = Returned ''a.com-p-fcf52c27'' \<and>
   slugify web ''http://a.com/p?i=61453'' = Returned ''a.com-p-fcf52c27''"
  by code_simp

subsection \<open>C9: a negative \<open>max_follow\<close>\<close>

text \<open>
  Claim C9. When \<open>max_follow\<close> is negative, the slice \<open>links[:max(0, max_follow)]\<close> is
  empty whatever the links are, and a run visits no URL but its seeds.
\<close>

theorem negative_max_follow:
  assumes "max_follow cfg < 0"
  shows "followed cfg links = [] \<and>
         (main E cfg w lns = (r, s, w') \<longrightarrow> seen_urls s \<subseteq> set (read_seeds lns))"
  using followed_negative [OF assms]
    run_seeds_negative [OF assms, of E initial w "read_seeds lns" r s w']
  by (auto simp: main_def initial_def)

text \<open>
  Crawling from the home page of the small web: with \<open>max_follow = -1\<close> only the seed is
  visited, with \<open>max_follow = 1\<close> its first link is, too.
\<close>

theorem negative_max_follow_witness:
  "followed (default_args\<lparr>crawl := True, max_follow := - 1\<rparr>)
     [''https://a.com/x'', ''http://b.org/''] = [] \<and>
   seen_urls (fst (snd (main web (default_args\<lparr>crawl := True, max_follow := - 1\<rparr>) ()
     [''http://a.com/'']))) \<subseteq> set (read_seeds [''http://a.com/'']) \<and>
   seen_urls (fst (snd (main web (default_args\<lparr>crawl := True, max_follow := - 1\<rparr>) ()
     [''http://a.com/'']))) = {''http://a.com/''} \<and>
   seen_urls (fst (snd (main web (default_args\<lparr>crawl := True, max_follow := 1\<rparr>) ()
     [''http://a.com/'']))) = {''http://a.com/'', ''https://a.com/x''}"
proof -
  have neg: "max_follow (default_args\<lparr>crawl := True, max_follow := - 1\<rparr>) < 0" by simp
  have runs: "seen_urls (fst (snd (main web (default_args\<lparr>crawl := True, max_follow := - 1\<rparr>) ()
       [''http://a.com/'']))) = {''http://a.com/''}"
     "seen_urls (fst (snd (main web (default_args\<lparr>crawl := True, max_follow := 1\<rparr>) ()
       [''http://a.com/'']))) = {''http://a.com/'', ''https://a.com/x''}"
    by code_simp+
  from negative_max_follow [OF neg, of "[''https://a.com/x'', ''http://b.org/'']" web "()"
      "[''http://a.com/'']"
      "fst (main web (default_args\<lparr>crawl := True, max_follow := - 1\<rparr>) () [''http://a.com/''])"
      "fst (snd (main web (default_args\<lparr>crawl := True, max_follow := - 1\<rparr>) () [''http://a.com/'']))"
      "snd (snd (main web (default_args\<lparr>crawl := True, max_follow := - 1\<rparr>) () [''http://a.com/'']))"]
  have "followed (default_args\<lparr>crawl := True, max_follow := - 1\<rparr>)
       [''https://a.com/x'', ''http://b.org/''] = [] \<and>
     seen_urls (fst (snd (main web (default_args\<lparr>crawl := True, max_follow := - 1\<rparr>) ()
       [''http://a.com/'']))) \<subseteq> set (read_seeds [''http://a.com/''])"
    by (simp add: prod_eq_iff)
  with runs show ?thesis by simp
qed

subsection \<open>C10: short texts on the Wikipedia path\<close>

text \<open>
  Claim C10, as amended. Let a URL be new, the budget not used up, robots.txt allow it,
  and the Wikipedia path return a text (it returns none that is empty after trimming).
  Then the call never applies the bound of 300 characters: whatever the length of the
  text, it logs \<open>DUPLICATE\<close> and writes nothing when the fingerprint was seen before,
  and otherwise records the fingerprint and hands the file to \<open>write_file\<close>; when that
  write succeeds the file is saved and its size added to \<open>total_bytes\<close>, when it raises
  the call logs \<open>ERROR\<close>.
\<close>

theorem wikipedia_path_no_length_gate:
  assumes "url \<notin> seen_urls s"
    and "total_bytes s < max_total_bytes cfg"
    and "ok_by_robots E w url (user_agent cfg) = (Returned True, w1)"
    and "fetch_wikipedia_plain E w1 url (timeout cfg) = (Returned (title, Some body), w2)"
    and "urlparse E url = Returned p"
    and "strftime E w2 = (stamp, wts)"
    and "write_file E wts (file_name (saved_as p url title stamp body))
           (file_content (saved_as p url title stamp body)) = (ok, w3)"
  shows "process_url E cfg s w url =
           (if sha1_hexdigest (utf8_encode (strip body)) \<in> seen_hashes s
            then (Returned (),
                  s\<lparr>seen_urls := insert url (seen_urls s),
                    log_lines := log_lines s @ [DUPLICATE url]\<rparr>, w2)
            else if ok
            then (Returned (),
                  s\<lparr>seen_urls := insert url (seen_urls s),
                    seen_hashes :=
                      insert (sha1_hexdigest (utf8_encode (strip body))) (seen_hashes s),
                    files := files s @ [saved_as p url title stamp body],
                    total_bytes := total_bytes s + added (saved_as p url title stamp body),
                    log_lines := log_lines s @
                      [SAVED url (added (saved_as p url title stamp body))
                         (total_bytes s + added (saved_as p url title stamp body))]\<rparr>, w3)
            else (Returned (),
                  s\<lparr>seen_urls := insert url (seen_urls s),
                    seen_hashes :=
                      insert (sha1_hexdigest (utf8_encode (strip body))) (seen_hashes s),
                    log_lines := log_lines s @ [ERROR url]\<rparr>, w3))"
proof -
  from assms(4) have "body \<noteq> []" by (rule fetch_wikipedia_plain_text)
  then obtain c cs where "body = c # cs" by (cases body) auto
  with assms save_txt_oracles [OF assms(5,6,7)] show ?thesis
    by (simp add: process_url_def acquire_def Let_def logging_def)
qed

text \<open>The article of the small web, whose text has 31 characters, is saved.\<close>

theorem wikipedia_path_no_length_gate_witness:
  "length (strip otter_text) = 31 \<and>
   saved_as \<lparr>scheme = ''https'', netloc = ''en.wikipedia.org'', path = ''/wiki/Otter''\<rparr>
     ''https://en.wikipedia.org/wiki/Otter'' (Some ''Otter'') ''2025-01-01 00:00:00'' otter_text =
     \<lparr>for_url = ''https://en.wikipedia.org/wiki/Otter'',
      file_name = ''en.wikipedia.org-wiki-Otter-d5b320f6.txt'',
      file_content = file_text ''https://en.wikipedia.org/wiki/Otter'' (Some ''Otter'')
        ''2025-01-01 00:00:00'' otter_text,
      added = 119\<rparr> \<and>
   process_url web default_args initial () ''https://en.wikipedia.org/wiki/Otter'' =
     (Returned (),
      \<lparr>seen_urls = {''https://en.wikipedia.org/wiki/Otter''},
       seen_hashes = {sha1_hexdigest (utf8_encode (strip otter_text))},
       total_bytes = 119,
       files = [\<lparr>for_url = ''https://en.wikipedia.org/wiki/Otter'',
                 file_name = ''en.wikipedia.org-wiki-Otter-d5b320f6.txt'',
                 file_content = file_text ''https://en.wikipedia.org/wiki/Otter'' (Some ''Otter'')
                   ''2025-01-01 00:00:00'' otter_text,
                 added = 119\<rparr>],
       log_lines = [SAVED ''https://en.wikipedia.org/wiki/Otter'' 119 119]\<rparr>, ())"
proof -
  let ?p = "\<lparr>scheme = ''https'', netloc = ''en.wikipedia.org'', path = ''/wiki/Otter''\<rparr>"
  let ?f = "saved_as ?p ''https://en.wikipedia.org/wiki/Otter'' (Some ''Otter'')
     ''2025-01-01 00:00:00'' otter_text"
  have len: "length (strip otter_text) = 31" by code_simp
  have saved: "?f =
     \<lparr>for_url = ''https://en.wikipedia.org/wiki/Otter'',
      file_name = ''en.wikipedia.org-wiki-Otter-d5b320f6.txt'',
      file_content = file_text ''https://en.wikipedia.org/wiki/Otter'' (Some ''Otter'')
        ''2025-01-01 00:00:00'' otter_text,
      added = 119\<rparr>"
    by code_simp
  have parsed: "urlparse web ''https://en.wikipedia.org/wiki/Otter'' = Returned ?p"
    by code_simp
  have stamp: "strftime web () = (''2025-01-01 00:00:00'', ())"
    and written: "write_file web () (file_name ?f) (file_content ?f) = (True, ())"
    by (simp_all add: web_def)
  from wikipedia_path_no_length_gate [OF web_fresh(1) web_fresh(3) web_robots_otter
      web_wikipedia_otter parsed stamp written]
  have "process_url web default_args initial () ''https://en.wikipedia.org/wiki/Otter'' =
     (Returned (),
      \<lparr>seen_urls = {''https://en.wikipedia.org/wiki/Otter''},
       seen_hashes = {sha1_hexdigest (utf8_encode (strip otter_text))},
       total_bytes = 119,
       files = [?f],
       log_lines = [SAVED ''https://en.wikipedia.org/wiki/Otter'' 119 119]\<rparr>, ())"
    by (simp add: saved initial_def)
  with len saved show ?thesis by simp
qed

text \<open>
  Claim C10 as stated fails: the second title of the article is acquired on the
  Wikipedia path with a text that is not empty, but its text was saved under the first
  title, so it is logged \<open>DUPLICATE\<close> and not saved.
\<close>

theorem wikipedia_duplicate_not_saved:
  "fetch_wikipedia_plain web () ''https://en.wikipedia.org/wiki/Otters'' (timeout default_args) =
     (Returned (Some ''Otter'', Some otter_text), ()) \<and>
   otter_text \<noteq> [] \<and>
   main web default_args ()
     [''https://en.wikipedia.org/wiki/Otter'', ''https://en.wikipedia.org/wiki/Otters''] =
     (Returned (),
      \<lparr>seen_urls = {''https://en.wikipedia.org/wiki/Otter'', ''https://en.wikipedia.org/wiki/Otters''},
       seen_hashes = {''19a86466592bac575f99ee0ef812ff1f56d35c34''},
       total_bytes = 119,
       files = [\<lparr>for_url = ''https://en.wikipedia.org/wiki/Otter'',
                 file_name = ''en.wikipedia.org-wiki-Otter-d5b320f6.txt'',
                 file_content = file_text ''https://en.wikipedia.org/wiki/Otter'' (Some ''Otter'')
                   ''2025-01-01 00:00:00'' otter_text,
                 added = 119\<rparr>],
       log_lines = [SAVED ''https://en.wikipedia.org/wiki/Otter'' 119 119,
                    DUPLICATE ''https://en.wikipedia.org/wiki/Otters'']\<rparr>, ())"
  by code_simp

end
